theory Spec2Isabelle
  imports Main "HOL-Library.Word"
begin

section \<open>CertImporter: a shallow embedding of CertImporter.cpp\<close>

text \<open>
  The program is a Windows entry point \<open>wWinMain\<close> that dispatches on its first
  argument to one of three action functions (\<open>checkExists\<close>, \<open>addCert\<close>,
  \<open>deleteCert\<close>) and returns the action's result as the process exit code.
  All effects go through the platform (certificate store, file system, decoder),
  so the embedding threads an explicit \<open>world\<close> through every call.
  Diagnostics written to the error stream are not modelled.
\<close>

subsection \<open>Wide strings and \<open>wcsncmp\<close>\<close>

type_synonym wchar = "16 word"
type_synonym wstring = "wchar list"
type_synonym byte = "8 word"
type_synonym DWORD = "32 word"

text \<open>A wide literal \<open>L"..."\<close>: the code units of an ASCII literal.\<close>

definition wstr :: "string \<Rightarrow> wstring" where
  "wstr s = map of_char s"

text \<open>
  A \<open>LPCWSTR\<close> is a list of code units; the terminating null is implicit, so the
  code unit under a pointer that has reached the end of the list is \<open>0\<close>.
\<close>

definition wchar_at :: "wstring \<Rightarrow> wchar" where
  "wchar_at s = (case s of [] \<Rightarrow> 0 | c # _ \<Rightarrow> c)"

text \<open>
  The C library's \<open>wcsncmp\<close>: compares at most \<open>n\<close> code units, stops at the first
  difference or at a null in both strings; the sign of the result orders the strings.
\<close>

fun wcsncmp :: "wstring \<Rightarrow> wstring \<Rightarrow> nat \<Rightarrow> int" where
  "wcsncmp s t 0 = 0"
| "wcsncmp s t (Suc n) =
    (if wchar_at s \<noteq> wchar_at t then (if wchar_at s < wchar_at t then - 1 else 1)
     else if wchar_at s = 0 then 0
     else wcsncmp (tl s) (tl t) n)"

subsection \<open>The platform\<close>

text \<open>
  A certificate as the program sees it: a subject name, used by find and delete, and
  the issuer and serial number that make up its identity in a store.
\<close>

record cert =
  subject :: wstring
  issuer :: wstring
  serial :: nat

definition same_cert :: "cert \<Rightarrow> cert \<Rightarrow> bool" where
  "same_cert a b \<longleftrightarrow> issuer a = issuer b \<and> serial a = serial b"

text \<open>
  A \<open>PCCERT_CONTEXT\<close>: the certificate and, for a context obtained from a store, the
  store it belongs to. A \<open>HCERTSTORE\<close> is identified with the name of the system
  store it was opened on.
\<close>

type_synonym HCERTSTORE = wstring

record cert_context =
  pCertInfo :: cert
  hCertStore :: "HCERTSTORE option"

datatype open_flag = CERT_SYSTEM_STORE_LOCAL_MACHINE | CERT_STORE_READONLY_FLAG

datatype disposition =
    CERT_STORE_ADD_NEW
  | CERT_STORE_ADD_REPLACE_EXISTING
  | CERT_STORE_ADD_ALWAYS

text \<open>The platform calls the program can make, in the order they are recorded.\<close>

datatype call =
    OpenStore wstring "open_flag set"
  | FindCertificateInStore HCERTSTORE wstring
  | CreateCertificateContext "byte list"
  | AddCertificateContextToStore HCERTSTORE cert disposition
  | DeleteCertificateFromStore cert_context
  | FreeCertificateContext cert_context
  | CloseStore HCERTSTORE

text \<open>
  The world outside the program. \<open>files\<close> gives the contents of every file that can
  be opened; \<open>decoder\<close> is the DER decoder; \<open>name_match pattern subj\<close> is the store's
  native subject comparison; \<open>add_refused\<close> and \<open>delete_refused\<close> say which requests
  the store rejects; \<open>stores\<close> holds the entries of every system store that can be
  opened, in the store's enumeration order; \<open>calls\<close> is the log of platform calls.
\<close>

record world =
  files :: "wstring \<Rightarrow> byte list option"
  decoder :: "byte list \<Rightarrow> cert option"
  name_match :: "wstring \<Rightarrow> wstring \<Rightarrow> bool"
  add_refused :: "cert \<Rightarrow> bool"
  delete_refused :: "cert \<Rightarrow> bool"
  stores :: "wstring \<Rightarrow> cert list option"
  calls :: "call list"

definition record_call :: "call \<Rightarrow> world \<Rightarrow> world" where
  "record_call c w = w\<lparr>calls := calls w @ [c]\<rparr>"

text \<open>
  Modelled from the spec: the trust-store provider's open-store-by-name (section 4.1),
  a platform call that is not part of the repository. It fails when the named
  store cannot be opened and otherwise returns a handle on it.
\<close>

definition CertOpenStore :: "open_flag set \<Rightarrow> wstring \<Rightarrow> world \<Rightarrow> HCERTSTORE option \<times> world" where
  "CertOpenStore flags storeName w =
     ((case stores w storeName of None \<Rightarrow> None | Some es \<Rightarrow> Some storeName),
      record_call (OpenStore storeName flags) w)"

text \<open>
  Modelled from the spec: the provider's find-by-subject (sections 3 and 4.2), not part
  of the repository. It scans the store in its enumeration order and returns the first
  entry whose subject matches; it does not change the store.
\<close>

definition CertFindCertificateInStore ::
    "HCERTSTORE \<Rightarrow> wstring \<Rightarrow> world \<Rightarrow> cert_context option \<times> world" where
  "CertFindCertificateInStore store commonName w =
     ((case stores w store of
         None \<Rightarrow> None
       | Some es \<Rightarrow>
           (case find (\<lambda>c. name_match w commonName (subject c)) es of
              None \<Rightarrow> None
            | Some c \<Rightarrow> Some \<lparr>pCertInfo = c, hCertStore = Some store\<rparr>)),
      record_call (FindCertificateInStore store commonName) w)"

text \<open>
  Modelled from the spec: the DER certificate decoder (section 6, collaborator (c)), not
  part of the repository. It is handed a block and, as a \<open>DWORD\<close>, the number of
  bytes to read from it; it decodes these bytes and returns a structured certificate
  or a parse error.
\<close>

definition CertCreateCertificateContext ::
    "byte list \<Rightarrow> DWORD \<Rightarrow> world \<Rightarrow> cert_context option \<times> world" where
  "CertCreateCertificateContext pbCertEncoded cbCertEncoded w =
     (let encoded = take (unat cbCertEncoded) pbCertEncoded
      in ((case decoder w encoded of
             None \<Rightarrow> None
           | Some c \<Rightarrow> Some \<lparr>pCertInfo = c, hCertStore = None\<rparr>),
          record_call (CreateCertificateContext encoded) w))"

text \<open>
  Add-or-replace on the entries of a store: the first entry with the same identity is
  overwritten in place; without one the certificate is appended.
\<close>

fun replace_existing :: "cert \<Rightarrow> cert list \<Rightarrow> cert list" where
  "replace_existing c [] = [c]"
| "replace_existing c (e # es) =
     (if same_cert e c then c # es else e # replace_existing c es)"

text \<open>
  Modelled from the spec: the provider's add (section 4.3, steps 3 and 4, and the
  glossary), not part of the repository. A rejected insertion leaves the store as it
  was. The disposition decides what happens to an entry with the same identity:
  \<open>CERT_STORE_ADD_REPLACE_EXISTING\<close> overwrites it in place, \<open>CERT_STORE_ADD_NEW\<close>
  fails on it, \<open>CERT_STORE_ADD_ALWAYS\<close> does not look for it.
\<close>

definition CertAddCertificateContextToStore ::
    "HCERTSTORE \<Rightarrow> cert_context \<Rightarrow> disposition \<Rightarrow> world \<Rightarrow> bool \<times> world" where
  "CertAddCertificateContextToStore store ctx disp w =
     (let c = pCertInfo ctx;
          w' = record_call (AddCertificateContextToStore store c disp) w
      in case stores w store of
           None \<Rightarrow> (False, w')
         | Some es \<Rightarrow>
             if add_refused w c then (False, w')
             else (case disp of
                     CERT_STORE_ADD_NEW \<Rightarrow>
                       if list_ex (\<lambda>e. same_cert e c) es then (False, w')
                       else (True, w'\<lparr>stores := (stores w)(store \<mapsto> es @ [c])\<rparr>)
                   | CERT_STORE_ADD_REPLACE_EXISTING \<Rightarrow>
                       (True, w'\<lparr>stores := (stores w)(store \<mapsto> replace_existing c es)\<rparr>)
                   | CERT_STORE_ADD_ALWAYS \<Rightarrow>
                       (True, w'\<lparr>stores := (stores w)(store \<mapsto> es @ [c])\<rparr>)))"

text \<open>
  Modelled from the spec: the provider's delete (section 4.4), not part of the
  repository. It removes the entry the context was found at from the context's own
  store; a rejected removal leaves the store as it was.
\<close>

definition CertDeleteCertificateFromStore :: "cert_context \<Rightarrow> world \<Rightarrow> bool \<times> world" where
  "CertDeleteCertificateFromStore ctx w =
     (let w' = record_call (DeleteCertificateFromStore ctx) w
      in case hCertStore ctx of
           None \<Rightarrow> (False, w')
         | Some store \<Rightarrow>
             (case stores w store of
                None \<Rightarrow> (False, w')
              | Some es \<Rightarrow>
                  if delete_refused w (pCertInfo ctx) then (False, w')
                  else (True, w'\<lparr>stores := (stores w)(store \<mapsto> remove1 (pCertInfo ctx) es)\<rparr>)))"

definition CertFreeCertificateContext :: "cert_context \<Rightarrow> world \<Rightarrow> world" where
  "CertFreeCertificateContext ctx w = record_call (FreeCertificateContext ctx) w"

subsection \<open>The three actions\<close>

definition STATUS_BAD_PARAMS :: int where
  "STATUS_BAD_PARAMS = 99"

definition checkExists :: "HCERTSTORE \<Rightarrow> wstring \<Rightarrow> world \<Rightarrow> int \<times> world" where
  "checkExists store commonName w =
     (case CertFindCertificateInStore store commonName w of
        (Some cert, w1) \<Rightarrow> (0, w1)
      | (None, w1) \<Rightarrow> (2, w1))"

text \<open>
  \<open>addCert\<close> opens the file, reads all of it (\<open>tellg\<close> at the end gives the size),
  parses it and inserts the certificate with \<open>CERT_STORE_ADD_REPLACE_EXISTING\<close>.
  \<open>size\<close> is a \<open>streampos\<close>; the block is allocated and read with it, and it is
  passed as the decoder's \<open>DWORD\<close> length, which keeps its low 32 bits.
\<close>

definition addCert :: "HCERTSTORE \<Rightarrow> wstring \<Rightarrow> world \<Rightarrow> int \<times> world" where
  "addCert store certFileName w =
     (case files w certFileName of
        None \<Rightarrow> (2, w)
      | Some memblock \<Rightarrow>
          (let size = length memblock
           in case CertCreateCertificateContext memblock (word_of_nat size) w of
                (None, w1) \<Rightarrow> (3, w1)
              | (Some cert, w1) \<Rightarrow>
                  (case CertAddCertificateContextToStore store cert
                          CERT_STORE_ADD_REPLACE_EXISTING w1 of
                     (False, w2) \<Rightarrow> (4, CertFreeCertificateContext cert w2)
                   | (True, w2) \<Rightarrow> (5, CertFreeCertificateContext cert w2))))"

definition deleteCert :: "HCERTSTORE \<Rightarrow> wstring \<Rightarrow> world \<Rightarrow> int \<times> world" where
  "deleteCert store commonName w =
     (case CertFindCertificateInStore store commonName w of
        (Some cert, w1) \<Rightarrow>
          (case CertDeleteCertificateFromStore cert w1 of
             (False, w2) \<Rightarrow> (5, w2)
           | (True, w2) \<Rightarrow> (0, CertFreeCertificateContext cert w2))
      | (None, w1) \<Rightarrow> (6, w1))"

subsection \<open>The entry point\<close>

text \<open>The function pointer \<open>actionFn\<close> ranges over the three actions.\<close>

datatype action_fn = CheckExists | AddCert | DeleteCert

definition call_action :: "action_fn \<Rightarrow> HCERTSTORE \<Rightarrow> wstring \<Rightarrow> world \<Rightarrow> int \<times> world" where
  "call_action f store actionData w =
     (case f of
        CheckExists \<Rightarrow> checkExists store actionData w
      | AddCert \<Rightarrow> addCert store actionData w
      | DeleteCert \<Rightarrow> deleteCert store actionData w)"

text \<open>
  The if-chain of \<open>wWinMain\<close> that picks \<open>actionFn\<close> and \<open>additionalOpenFlags\<close>;
  \<open>None\<close> is the final else branch ("Invalid action").
\<close>

definition select_action :: "wstring \<Rightarrow> (action_fn \<times> open_flag set) option" where
  "select_action action =
     (if wcsncmp action (wstr ''find'') 4 = 0 then Some (CheckExists, {CERT_STORE_READONLY_FLAG})
      else if wcsncmp action (wstr ''add'') 3 = 0 then Some (AddCert, {})
      else if wcsncmp action (wstr ''delete'') 6 = 0 then Some (DeleteCert, {})
      else None)"

text \<open>
  \<open>argv\<close> is the result of \<open>CommandLineToArgvW\<close> and \<open>argc\<close> its length. The result
  is the process exit code and the world the process leaves behind.
\<close>

definition wWinMain :: "wstring list \<Rightarrow> world \<Rightarrow> int \<times> world" where
  "wWinMain argv w =
     (if length argv < 3 then (STATUS_BAD_PARAMS, w)
      else
        let action = argv ! 0; storeName = argv ! 1; actionData = argv ! 2
        in case select_action action of
             None \<Rightarrow> (STATUS_BAD_PARAMS, w)
           | Some (actionFn, additionalOpenFlags) \<Rightarrow>
               (case CertOpenStore
                       ({CERT_SYSTEM_STORE_LOCAL_MACHINE} \<union> additionalOpenFlags) storeName w of
                  (None, w1) \<Rightarrow> (1, w1)
                | (Some store, w1) \<Rightarrow> call_action actionFn store actionData w1))"

subsection \<open>A test double for the platform\<close>

text \<open>
  An in-memory platform for concrete runs: three files (a certificate, a file that is
  not DER, an empty file), a decoder that accepts the certificate file only, exact
  subject comparison, a store that rejects nothing, and one system store \<open>ROOT\<close>.
\<close>

definition example_ca :: cert where
  "example_ca = \<lparr>subject = wstr ''Example CA'', issuer = wstr ''Example CA'', serial = 1\<rparr>"

definition example_der :: "byte list" where
  "example_der = [0x30, 0x82, 0x01, 0xF0, 0x30, 0x82]"

definition fake_platform :: "cert list \<Rightarrow> world" where
  "fake_platform es =
     \<lparr>files = [wstr ''ca.der'' \<mapsto> example_der, wstr ''junk.bin'' \<mapsto> [0x2D, 0x2D],
               wstr ''empty.der'' \<mapsto> []],
      decoder = (\<lambda>b. if b = example_der then Some example_ca else None),
      name_match = (\<lambda>pattern subj. pattern = subj),
      add_refused = (\<lambda>c. False),
      delete_refused = (\<lambda>c. False),
      stores = [wstr ''ROOT'' \<mapsto> es],
      calls = []\<rparr>"

text \<open>Two further certificates; the second shares its subject with \<open>example_ca\<close>.\<close>

definition other_ca :: cert where
  "other_ca = \<lparr>subject = wstr ''Other CA'', issuer = wstr ''Other CA'', serial = 7\<rparr>"

definition example_ca_renewed :: cert where
  "example_ca_renewed =
     \<lparr>subject = wstr ''Example CA'', issuer = wstr ''Example CA'', serial = 2\<rparr>"

text \<open>
  Files of 4 GiB and more. \<open>padded_der\<close> is the certificate file followed by
  \<open>2 ^ 32\<close> null bytes; \<open>large_der\<close> has \<open>2 ^ 32 + 4\<close> bytes and starts with a
  sequence tag and a four-byte length. The decoder of \<open>large_platform\<close> accepts the
  certificate file and every block of \<open>2 ^ 32\<close> bytes or more with that start.
\<close>

definition padded_der :: "byte list" where
  "padded_der = example_der @ replicate (2 ^ 32) 0x00"

definition large_der :: "byte list" where
  "large_der = [0x30, 0x84] @ replicate (2 ^ 32 + 2) 0x01"

definition large_ca :: cert where
  "large_ca = \<lparr>subject = wstr ''Large CA'', issuer = wstr ''Large CA'', serial = 3\<rparr>"

definition large_platform :: "cert list \<Rightarrow> world" where
  "large_platform es =
     \<lparr>files = [wstr ''padded.bin'' \<mapsto> padded_der, wstr ''large.der'' \<mapsto> large_der],
      decoder = (\<lambda>b. if b = example_der then Some example_ca
                     else if 2 ^ 32 \<le> length b \<and> take 2 b = [0x30, 0x84] then Some large_ca
                     else None),
      name_match = (\<lambda>pattern subj. pattern = subj),
      add_refused = (\<lambda>c. False),
      delete_refused = (\<lambda>c. False),
      stores = [wstr ''ROOT'' \<mapsto> es],
      calls = []\<rparr>"

section \<open>Properties\<close>

subsection \<open>Evaluation lemmas\<close>

lemmas platform_defs = CertOpenStore_def CertFindCertificateInStore_def
  CertCreateCertificateContext_def CertAddCertificateContextToStore_def
  CertDeleteCertificateFromStore_def CertFreeCertificateContext_def record_call_def

lemmas test_defs = fake_platform_def example_ca_def example_der_def other_ca_def
  example_ca_renewed_def

text \<open>
  Against a literal without a null, \<open>wcsncmp\<close> over the literal's length is \<open>0\<close>
  exactly when the string starts with the literal.
\<close>

lemma wcsncmp_eq_0_iff:
  "0 \<notin> set t \<Longrightarrow> length t = n \<Longrightarrow> (wcsncmp s t n = 0) = (take n s = t)"
proof (induction s t n rule: wcsncmp.induct)
  case (1 s t)
  then show ?case by simp
next
  case (2 s t n)
  then obtain b t' where t: "t = b # t'" "b \<noteq> 0" "0 \<notin> set t'" "length t' = n"
    by (cases t) auto
  show ?case
  proof (cases s)
    case Nil
    with t show ?thesis by (simp add: wchar_at_def)
  next
    case (Cons a s')
    with t 2 show ?thesis by (auto simp: wchar_at_def)
  qed
qed

lemma wcsncmp_find: "(wcsncmp a (wstr ''find'') 4 = 0) = (take 4 a = wstr ''find'')"
  by (rule wcsncmp_eq_0_iff) (simp_all add: wstr_def)

lemma wcsncmp_add: "(wcsncmp a (wstr ''add'') 3 = 0) = (take 3 a = wstr ''add'')"
  by (rule wcsncmp_eq_0_iff) (simp_all add: wstr_def)

lemma wcsncmp_delete: "(wcsncmp a (wstr ''delete'') 6 = 0) = (take 6 a = wstr ''delete'')"
  by (rule wcsncmp_eq_0_iff) (simp_all add: wstr_def)

lemma select_action_prefix:
  "select_action a =
     (if take 4 a = wstr ''find'' then Some (CheckExists, {CERT_STORE_READONLY_FLAG})
      else if take 3 a = wstr ''add'' then Some (AddCert, {})
      else if take 6 a = wstr ''delete'' then Some (DeleteCert, {})
      else None)"
  by (simp add: select_action_def wcsncmp_find wcsncmp_add wcsncmp_delete)

text \<open>The three literals start with different code units, so the order of the chain
  does not matter.\<close>

lemma prefix_find_hd: "take 4 a = wstr ''find'' \<Longrightarrow> \<exists>r. a = 102 # r"
  by (cases a) (auto simp: wstr_def)

lemma prefix_add_hd: "take 3 a = wstr ''add'' \<Longrightarrow> \<exists>r. a = 97 # r"
  by (cases a) (auto simp: wstr_def)

lemma prefix_delete_hd: "take 6 a = wstr ''delete'' \<Longrightarrow> \<exists>r. a = 100 # r"
  by (cases a) (auto simp: wstr_def)

lemma select_action_find:
  "take 4 a = wstr ''find'' \<Longrightarrow> select_action a = Some (CheckExists, {CERT_STORE_READONLY_FLAG})"
  by (simp add: select_action_prefix)

lemma select_action_add: "take 3 a = wstr ''add'' \<Longrightarrow> select_action a = Some (AddCert, {})"
  using prefix_find_hd [of a] prefix_add_hd [of a]
  by (auto simp: select_action_prefix)

lemma select_action_delete:
  "take 6 a = wstr ''delete'' \<Longrightarrow> select_action a = Some (DeleteCert, {})"
  using prefix_find_hd [of a] prefix_add_hd [of a] prefix_delete_hd [of a]
  by (auto simp: select_action_prefix)

text \<open>A block shorter than \<open>2 ^ 32\<close> bytes reaches the decoder whole.\<close>

lemma take_dword_length:
  "length memblock < 2 ^ 32 \<Longrightarrow>
   take (unat (word_of_nat (length memblock) :: DWORD)) memblock = memblock"
  by (simp add: unat_of_nat)

text \<open>What \<open>wWinMain\<close> does once an action is selected and the store has opened.\<close>

lemma wWinMain_find:
  assumes "3 \<le> length argv" "take 4 (argv ! 0) = wstr ''find''"
    and "stores w (argv ! 1) = Some es"
  shows "wWinMain argv w =
    checkExists (argv ! 1) (argv ! 2)
      (record_call (OpenStore (argv ! 1)
         {CERT_SYSTEM_STORE_LOCAL_MACHINE, CERT_STORE_READONLY_FLAG}) w)"
  using assms by (simp add: wWinMain_def select_action_find call_action_def CertOpenStore_def)

lemma wWinMain_add:
  assumes "3 \<le> length argv" "take 3 (argv ! 0) = wstr ''add''"
    and "stores w (argv ! 1) = Some es"
  shows "wWinMain argv w =
    addCert (argv ! 1) (argv ! 2)
      (record_call (OpenStore (argv ! 1) {CERT_SYSTEM_STORE_LOCAL_MACHINE}) w)"
  using assms by (simp add: wWinMain_def select_action_add call_action_def CertOpenStore_def)

lemma wWinMain_delete:
  assumes "3 \<le> length argv" "take 6 (argv ! 0) = wstr ''delete''"
    and "stores w (argv ! 1) = Some es"
  shows "wWinMain argv w =
    deleteCert (argv ! 1) (argv ! 2)
      (record_call (OpenStore (argv ! 1) {CERT_SYSTEM_STORE_LOCAL_MACHINE}) w)"
  using assms by (simp add: wWinMain_def select_action_delete call_action_def CertOpenStore_def)

subsection \<open>Exit code of a successful import\<close>

text \<open>
  Claim C1: an add whose file is readable, whose bytes parse and whose insertion the
  store accepts exits with code 0. The header of the source says the same ("If and
  only if the import was successful, this program exits with status 0"), but the last
  statement of \<open>addCert\<close> is \<open>return 5\<close>. On the test double, \<open>add ROOT ca.der\<close>
  imports the certificate into the empty store and the exit code is 5.
\<close>

theorem add_success_exit_code:
  "fst (wWinMain [wstr ''add'', wstr ''ROOT'', wstr ''ca.der''] (fake_platform [])) = 5 \<and>
   stores (snd (wWinMain [wstr ''add'', wstr ''ROOT'', wstr ''ca.der''] (fake_platform [])))
     (wstr ''ROOT'') = Some [example_ca]"
  by (simp add: wWinMain_def select_action_prefix call_action_def wstr_def addCert_def
      platform_defs test_defs Let_def)

subsection \<open>Malformed invocations\<close>

text \<open>
  Claim C3: with fewer than 3 arguments, or with an action token that starts with
  none of \<open>find\<close>, \<open>add\<close>, \<open>delete\<close>, the exit code is 99 and the store is never
  opened: the world comes back as it was, so no platform call was recorded.
\<close>

theorem bad_invocation:
  assumes "length argv < 3 \<or>
           (take 4 (argv ! 0) \<noteq> wstr ''find'' \<and> take 3 (argv ! 0) \<noteq> wstr ''add'' \<and>
            take 6 (argv ! 0) \<noteq> wstr ''delete'')"
  shows "wWinMain argv w = (99, w)"
  using assms by (auto simp: wWinMain_def STATUS_BAD_PARAMS_def select_action_prefix)

theorem bad_invocation_witness:
  "wWinMain [wstr ''add'', wstr ''ROOT''] (fake_platform []) = (99, fake_platform []) \<and>
   wWinMain [wstr ''Find'', wstr ''ROOT'', wstr ''Example CA''] (fake_platform [])
     = (99, fake_platform [])"
  using bad_invocation [of "[wstr ''add'', wstr ''ROOT'']" "fake_platform []"]
    bad_invocation [of "[wstr ''Find'', wstr ''ROOT'', wstr ''Example CA'']" "fake_platform []"]
  by (simp add: wstr_def)

subsection \<open>Find\<close>

text \<open>
  Claim C4: when the store has opened, find exits with 0 if some entry of the store has
  a subject matching the given name and with 2 if none has; the stores are the same
  after the run as before.
\<close>

theorem find_exit_code:
  assumes "3 \<le> length argv" "take 4 (argv ! 0) = wstr ''find''"
    and "stores w (argv ! 1) = Some es"
  shows "fst (wWinMain argv w) =
           (if \<exists>c \<in> set es. name_match w (argv ! 2) (subject c) then 0 else 2) \<and>
         stores (snd (wWinMain argv w)) = stores w"
proof (cases "find (\<lambda>c. name_match w (argv ! 2) (subject c)) es")
  case None
  then have "\<not> (\<exists>c \<in> set es. name_match w (argv ! 2) (subject c))"
    by (simp add: find_None_iff)
  with None assms show ?thesis
    by (simp add: wWinMain_find checkExists_def platform_defs)
next
  case (Some c)
  then have "\<exists>c \<in> set es. name_match w (argv ! 2) (subject c)"
    by (auto simp: find_Some_iff)
  with Some assms show ?thesis
    by (simp add: wWinMain_find checkExists_def platform_defs)
qed

theorem find_exit_code_witness:
  "fst (wWinMain [wstr ''find'', wstr ''ROOT'', wstr ''Example CA'']
          (fake_platform [other_ca, example_ca])) = 0 \<and>
   fst (wWinMain [wstr ''find'', wstr ''ROOT'', wstr ''Example CA'']
          (fake_platform [other_ca])) = 2 \<and>
   stores (snd (wWinMain [wstr ''find'', wstr ''ROOT'', wstr ''Example CA'']
                  (fake_platform [other_ca, example_ca])))
     = stores (fake_platform [other_ca, example_ca])"
  using find_exit_code [of "[wstr ''find'', wstr ''ROOT'', wstr ''Example CA'']"
      "fake_platform [other_ca, example_ca]" "[other_ca, example_ca]"]
    find_exit_code [of "[wstr ''find'', wstr ''ROOT'', wstr ''Example CA'']"
      "fake_platform [other_ca]" "[other_ca]"]
  by (simp add: wstr_def test_defs)

subsection \<open>Dispatch\<close>

text \<open>
  Claim C9: the dispatcher selects find, add or delete exactly when the token starts
  with \<open>find\<close>, \<open>add\<close> or \<open>delete\<close> (its first 4, 3 or 6 code units, compared
  case-sensitively); the token \<open>finder\<close> selects find.
\<close>

theorem dispatch_by_prefix:
  "(map_option fst (select_action token) = Some CheckExists \<longleftrightarrow> take 4 token = wstr ''find'') \<and>
   (map_option fst (select_action token) = Some AddCert \<longleftrightarrow> take 3 token = wstr ''add'') \<and>
   (map_option fst (select_action token) = Some DeleteCert \<longleftrightarrow> take 6 token = wstr ''delete'') \<and>
   map_option fst (select_action (wstr ''finder'')) = Some CheckExists"
proof -
  have f: "map_option fst (select_action token) = Some CheckExists \<longleftrightarrow>
           take 4 token = wstr ''find''"
    by (simp add: select_action_prefix)
  have a: "map_option fst (select_action token) = Some AddCert \<longleftrightarrow>
           take 3 token = wstr ''add''"
    using select_action_add [of token] by (auto simp: select_action_prefix split: if_splits)
  have d: "map_option fst (select_action token) = Some DeleteCert \<longleftrightarrow>
           take 6 token = wstr ''delete''"
    using select_action_delete [of token] by (auto simp: select_action_prefix split: if_splits)
  have e: "map_option fst (select_action (wstr ''finder'')) = Some CheckExists"
    by (simp add: select_action_prefix wstr_def)
  from f a d e show ?thesis by blast
qed

theorem dispatch_by_prefix_witness:
  "map_option fst (select_action (wstr ''finder'')) = Some CheckExists \<and>
   take 4 (wstr ''finder'') = wstr ''find'' \<and>
   map_option fst (select_action (wstr ''address'')) = Some AddCert \<and>
   map_option fst (select_action (wstr ''Find'')) = None"
  using dispatch_by_prefix [of "wstr ''finder''"] dispatch_by_prefix [of "wstr ''address''"]
    dispatch_by_prefix [of "wstr ''Find''"]
  by (simp add: wstr_def select_action_prefix)

subsection \<open>Add: the error paths\<close>

text \<open>
  The add action is invoked when the dispatcher has selected \<open>addCert\<close> and the store
  has opened; the three claims below are about such runs.

  Claim C6 says that an add whose certificate file cannot be opened exits with code 2
  without mutating the store, the failure coming before any store call. The dispatcher
  opens the store, without the read-only flag, before \<open>addCert\<close> tries the file: on
  the test double, \<open>add ROOT missing.der\<close> exits with 2 and the store has been opened.
\<close>

theorem add_unreadable_store_opened_example:
  "files (fake_platform [other_ca]) (wstr ''missing.der'') = None \<and>
   fst (wWinMain [wstr ''add'', wstr ''ROOT'', wstr ''missing.der'']
          (fake_platform [other_ca])) = 2 \<and>
   calls (fake_platform [other_ca]) = [] \<and>
   OpenStore (wstr ''ROOT'') {CERT_SYSTEM_STORE_LOCAL_MACHINE} \<in>
     set (calls (snd (wWinMain [wstr ''add'', wstr ''ROOT'', wstr ''missing.der'']
                        (fake_platform [other_ca]))))"
  by (simp add: wWinMain_def select_action_prefix call_action_def wstr_def addCert_def
      platform_defs test_defs)

text \<open>
  Claim C6, amended: an add whose certificate file cannot be opened exits with code 2
  and leaves the entries of every store as they were. The failure comes after the
  dispatcher has opened the store and before any other platform call: the open is the
  only call of the run.
\<close>

theorem add_unreadable_file:
  assumes "3 \<le> length argv" "take 3 (argv ! 0) = wstr ''add''"
    and "stores w (argv ! 1) = Some es"
    and "files w (argv ! 2) = None"
  shows "fst (wWinMain argv w) = 2 \<and>
         stores (snd (wWinMain argv w)) = stores w \<and>
         calls (snd (wWinMain argv w)) =
           calls w @ [OpenStore (argv ! 1) {CERT_SYSTEM_STORE_LOCAL_MACHINE}]"
  using assms by (simp add: wWinMain_add addCert_def record_call_def)

theorem add_unreadable_file_witness:
  "fst (wWinMain [wstr ''add'', wstr ''ROOT'', wstr ''missing.der''] (fake_platform [other_ca])) = 2 \<and>
   stores (snd (wWinMain [wstr ''add'', wstr ''ROOT'', wstr ''missing.der''] (fake_platform [other_ca])))
     = stores (fake_platform [other_ca]) \<and>
   calls (snd (wWinMain [wstr ''add'', wstr ''ROOT'', wstr ''missing.der''] (fake_platform [other_ca])))
     = [OpenStore (wstr ''ROOT'') {CERT_SYSTEM_STORE_LOCAL_MACHINE}]"
  using add_unreadable_file [of "[wstr ''add'', wstr ''ROOT'', wstr ''missing.der'']"
      "fake_platform [other_ca]" "[other_ca]"]
  by (simp add: wstr_def test_defs)




text \<open>
  Claim C10: an add whose file is readable and empty is not reported as an unreadable
  file (the exit code is never 2); the empty block goes to the decoder, and as the
  decoder rejects the empty input the exit code is 3 and the store is unchanged.
\<close>

theorem add_empty_file:
  assumes "3 \<le> length argv" "take 3 (argv ! 0) = wstr ''add''"
    and "stores w (argv ! 1) = Some es"
    and "files w (argv ! 2) = Some []"
  shows "fst (wWinMain argv w) \<noteq> 2 \<and>
         (decoder w [] = None \<longrightarrow>
            fst (wWinMain argv w) = 3 \<and> stores (snd (wWinMain argv w)) = stores w)"
  using assms
  by (simp add: wWinMain_add addCert_def platform_defs Let_def split: option.split)

theorem add_empty_file_witness:
  "fst (wWinMain [wstr ''add'', wstr ''ROOT'', wstr ''empty.der''] (fake_platform [other_ca])) = 3 \<and>
   stores (snd (wWinMain [wstr ''add'', wstr ''ROOT'', wstr ''empty.der''] (fake_platform [other_ca])))
     = stores (fake_platform [other_ca])"
  using add_empty_file [of "[wstr ''add'', wstr ''ROOT'', wstr ''empty.der'']"
      "fake_platform [other_ca]" "[other_ca]"]
  by (simp add: wstr_def test_defs)

subsection \<open>Add: replace on import\<close>

lemma same_cert_refl: "same_cert c c"
  by (simp add: same_cert_def)

lemma replace_existing_idem:
  "replace_existing c (replace_existing c es) = replace_existing c es"
  by (induction es) (simp_all add: same_cert_refl)

lemma replace_existing_single:
  "length (filter (\<lambda>e. same_cert e c) es) \<le> 1 \<Longrightarrow>
   filter (\<lambda>e. same_cert e c) (replace_existing c es) = [c]"
  by (induction es) (auto simp: same_cert_refl split: if_splits)

lemma add_run:
  assumes "3 \<le> length argv" "take 3 (argv ! 0) = wstr ''add''"
    and "stores w (argv ! 1) = Some es"
    and "files w (argv ! 2) = Some memblock"
    and "length memblock < 2 ^ 32"
    and "decoder w memblock = Some c"
    and "\<not> add_refused w c"
  shows "stores (snd (wWinMain argv w)) = (stores w)(argv ! 1 \<mapsto> replace_existing c es)"
    and "files (snd (wWinMain argv w)) = files w"
    and "decoder (snd (wWinMain argv w)) = decoder w"
    and "add_refused (snd (wWinMain argv w)) = add_refused w"
    and "fst (wWinMain argv w) = 5"
  using assms by (simp_all add: wWinMain_add addCert_def platform_defs Let_def take_dword_length)

text \<open>
  Claim C5 says that for every valid certificate file two adds in succession leave
  exactly one entry for the certificate. Of a file of \<open>2 ^ 32\<close> bytes or more the
  decoder is handed a proper prefix (its length parameter has 32 bits). \<open>large.der\<close>
  parses as a whole, its first 4 bytes do not: both adds exit with 3 and the store
  has no entry for the certificate.
\<close>

theorem add_large_file_example:
  "files (large_platform []) (wstr ''large.der'') = Some large_der \<and>
   decoder (large_platform []) large_der = Some large_ca \<and>
   \<not> add_refused (large_platform []) large_ca \<and>
   fst (wWinMain [wstr ''add'', wstr ''ROOT'', wstr ''large.der''] (large_platform [])) = 3 \<and>
   stores (snd (wWinMain [wstr ''add'', wstr ''ROOT'', wstr ''large.der'']
             (snd (wWinMain [wstr ''add'', wstr ''ROOT'', wstr ''large.der'']
                (large_platform [])))))
     (wstr ''ROOT'') = Some []"
  by (simp add: wWinMain_def select_action_prefix call_action_def wstr_def addCert_def
      platform_defs large_platform_def large_der_def example_der_def Let_def unat_of_nat)

text \<open>
  Claim C5, amended: for a valid certificate file shorter than \<open>2 ^ 32\<close> bytes, two
  adds in succession on the same store leave exactly one entry for that certificate.
  The second add does not change the store the first one left (it replaces, it does
  not duplicate). The store is a keyed collection: when it held at most one entry with
  the certificate's identity before the first add, it holds the certificate as its
  only entry with this identity after the second.
\<close>

theorem add_twice:
  assumes "3 \<le> length argv" "take 3 (argv ! 0) = wstr ''add''"
    and "stores w (argv ! 1) = Some es"
    and "files w (argv ! 2) = Some memblock"
    and "length memblock < 2 ^ 32"
    and "decoder w memblock = Some c"
    and "\<not> add_refused w c"
  shows "stores (snd (wWinMain argv (snd (wWinMain argv w)))) = stores (snd (wWinMain argv w)) \<and>
         (length (filter (\<lambda>e. same_cert e c) es) \<le> 1 \<longrightarrow>
            (\<exists>es'. stores (snd (wWinMain argv (snd (wWinMain argv w)))) (argv ! 1) = Some es' \<and>
                   filter (\<lambda>e. same_cert e c) es' = [c]))"
proof -
  let ?w1 = "snd (wWinMain argv w)"
  have s1: "stores ?w1 = (stores w)(argv ! 1 \<mapsto> replace_existing c es)"
    using assms by (rule add_run)
  have f1: "files ?w1 (argv ! 2) = Some memblock"
    using add_run(2) [OF assms] assms(4) by simp
  have d1: "decoder ?w1 memblock = Some c"
    using add_run(3) [OF assms] assms(6) by simp
  have r1: "\<not> add_refused ?w1 c"
    using add_run(4) [OF assms] assms(7) by simp
  have o1: "stores ?w1 (argv ! 1) = Some (replace_existing c es)"
    using s1 by simp
  have s2: "stores (snd (wWinMain argv ?w1)) =
              (stores ?w1)(argv ! 1 \<mapsto> replace_existing c (replace_existing c es))"
    using assms(1,2) o1 f1 assms(5) d1 r1 by (rule add_run)
  have same: "stores (snd (wWinMain argv ?w1)) = stores ?w1"
    using s2 s1 by (simp add: replace_existing_idem)
  have one: "filter (\<lambda>e. same_cert e c) (replace_existing c es) = [c]"
    if "length (filter (\<lambda>e. same_cert e c) es) \<le> 1"
    using that by (rule replace_existing_single)
  from same o1 one show ?thesis by simp
qed

theorem add_twice_witness:
  "stores (snd (wWinMain [wstr ''add'', wstr ''ROOT'', wstr ''ca.der'']
             (snd (wWinMain [wstr ''add'', wstr ''ROOT'', wstr ''ca.der'']
                (fake_platform [other_ca])))))
     (wstr ''ROOT'') = Some [other_ca, example_ca] \<and>
   filter (\<lambda>e. same_cert e example_ca) [other_ca, example_ca] = [example_ca]"
  using add_twice [of "[wstr ''add'', wstr ''ROOT'', wstr ''ca.der'']"
      "fake_platform [other_ca]" "[other_ca]" example_der example_ca]
    add_run(1) [of "[wstr ''add'', wstr ''ROOT'', wstr ''ca.der'']"
      "fake_platform [other_ca]" "[other_ca]" example_der example_ca]
  by (simp add: wstr_def test_defs same_cert_def)

subsection \<open>Delete\<close>

lemma find_first:
  "\<forall>x \<in> set xs. \<not> P x \<Longrightarrow> P c \<Longrightarrow> find P (xs @ c # ys) = Some c"
  by (induction xs) simp_all

lemma remove1_first: "c \<notin> set xs \<Longrightarrow> remove1 c (xs @ c # ys) = xs @ ys"
  by (simp add: remove1_append)

text \<open>
  Claim C8: when the store has opened, a delete with no matching entry exits with
  code 6 (one of the two codes 2 and 6) and leaves the store unchanged. When an entry
  matches, let \<open>c\<close> be the first one, \<open>xs\<close> the entries before it and \<open>ys\<close> the
  entries after it: an accepted removal exits with 0 and leaves exactly \<open>xs @ ys\<close>, so
  every other entry stays, also those in \<open>ys\<close> that share the subject; a rejected
  removal exits with 5 and removes nothing.
\<close>

theorem delete_first_match:
  assumes "3 \<le> length argv" "take 6 (argv ! 0) = wstr ''delete''"
    and "stores w (argv ! 1) = Some es"
  shows "((\<forall>e \<in> set es. \<not> name_match w (argv ! 2) (subject e)) \<longrightarrow>
            fst (wWinMain argv w) = 6 \<and> stores (snd (wWinMain argv w)) = stores w) \<and>
         (\<forall>xs c ys.
            es = xs @ c # ys \<and> (\<forall>e \<in> set xs. \<not> name_match w (argv ! 2) (subject e)) \<and>
            name_match w (argv ! 2) (subject c) \<longrightarrow>
            (if delete_refused w c
             then fst (wWinMain argv w) = 5 \<and> stores (snd (wWinMain argv w)) = stores w
             else fst (wWinMain argv w) = 0 \<and>
                  stores (snd (wWinMain argv w)) = (stores w)(argv ! 1 \<mapsto> xs @ ys)))"
proof (intro conjI allI impI)
  assume "\<forall>e \<in> set es. \<not> name_match w (argv ! 2) (subject e)"
  then have "find (\<lambda>c. name_match w (argv ! 2) (subject c)) es = None"
    by (simp add: find_None_iff)
  with assms show "fst (wWinMain argv w) = 6"
    by (simp add: wWinMain_delete deleteCert_def platform_defs)
  from \<open>find _ es = None\<close> assms show "stores (snd (wWinMain argv w)) = stores w"
    by (simp add: wWinMain_delete deleteCert_def platform_defs)
next
  fix xs c ys
  assume h: "es = xs @ c # ys \<and> (\<forall>e \<in> set xs. \<not> name_match w (argv ! 2) (subject e)) \<and>
             name_match w (argv ! 2) (subject c)"
  then have fnd: "find (\<lambda>c. name_match w (argv ! 2) (subject c)) es = Some c"
    by (simp add: find_first)
  from h have "c \<notin> set xs" by auto
  with h have rm: "remove1 c es = xs @ ys"
    by (simp add: remove1_first)
  from fnd rm assms
  show "if delete_refused w c
        then fst (wWinMain argv w) = 5 \<and> stores (snd (wWinMain argv w)) = stores w
        else fst (wWinMain argv w) = 0 \<and>
             stores (snd (wWinMain argv w)) = (stores w)(argv ! 1 \<mapsto> xs @ ys)"
    by (simp add: wWinMain_delete deleteCert_def platform_defs Let_def)
qed

theorem delete_first_match_witness:
  "fst (wWinMain [wstr ''delete'', wstr ''ROOT'', wstr ''Example CA'']
          (fake_platform [other_ca, example_ca, example_ca_renewed])) = 0 \<and>
   stores (snd (wWinMain [wstr ''delete'', wstr ''ROOT'', wstr ''Example CA'']
                  (fake_platform [other_ca, example_ca, example_ca_renewed]))) (wstr ''ROOT'')
     = Some [other_ca, example_ca_renewed] \<and>
   fst (wWinMain [wstr ''delete'', wstr ''ROOT'', wstr ''Example CA'']
          (fake_platform [other_ca])) = 6 \<and>
   stores (snd (wWinMain [wstr ''delete'', wstr ''ROOT'', wstr ''Example CA'']
                  (fake_platform [other_ca]))) = stores (fake_platform [other_ca])"
proof -
  let ?argv = "[wstr ''delete'', wstr ''ROOT'', wstr ''Example CA'']"
  have a: "3 \<le> length ?argv" "take 6 (?argv ! 0) = wstr ''delete''"
    by (simp_all add: wstr_def)
  have s3: "stores (fake_platform [other_ca, example_ca, example_ca_renewed]) (?argv ! 1)
            = Some [other_ca, example_ca, example_ca_renewed]"
    by (simp add: fake_platform_def)
  have s1: "stores (fake_platform [other_ca]) (?argv ! 1) = Some [other_ca]"
    by (simp add: fake_platform_def)
  note t3 = delete_first_match [OF a s3, THEN conjunct2, rule_format,
      of "[other_ca]" example_ca "[example_ca_renewed]"]
  note t1 = delete_first_match [OF a s1, THEN conjunct1, rule_format]
  have m: "name_match (fake_platform es) (?argv ! 2) (subject example_ca)"
      "\<not> name_match (fake_platform es) (?argv ! 2) (subject other_ca)"
      "\<not> delete_refused (fake_platform es) c" for es c
    by (simp_all add: wstr_def test_defs)
  from t3 m have "fst (wWinMain ?argv (fake_platform [other_ca, example_ca, example_ca_renewed])) = 0 \<and>
     stores (snd (wWinMain ?argv (fake_platform [other_ca, example_ca, example_ca_renewed])))
       = (stores (fake_platform [other_ca, example_ca, example_ca_renewed]))(?argv ! 1 \<mapsto> [other_ca] @ [example_ca_renewed])"
    by simp
  moreover from t1 m have "fst (wWinMain ?argv (fake_platform [other_ca])) = 6 \<and>
     stores (snd (wWinMain ?argv (fake_platform [other_ca]))) = stores (fake_platform [other_ca])"
    by simp
  ultimately show ?thesis by simp
qed

subsection \<open>The store handle\<close>

lemma checkExists_calls:
  "\<exists>cs. calls (snd (checkExists store n w)) = calls w @ cs \<and> (\<forall>h. CloseStore h \<notin> set cs)"
  by (simp add: checkExists_def platform_defs split: option.split)

lemma addCert_calls:
  "\<exists>cs. calls (snd (addCert store n w)) = calls w @ cs \<and> (\<forall>h. CloseStore h \<notin> set cs)"
  by (simp add: addCert_def platform_defs Let_def split: option.split disposition.split)

lemma deleteCert_calls:
  "\<exists>cs. calls (snd (deleteCert store n w)) = calls w @ cs \<and> (\<forall>h. CloseStore h \<notin> set cs)"
  by (simp add: deleteCert_def platform_defs Let_def split: option.split)

lemma call_action_calls:
  "\<exists>cs. calls (snd (call_action f store n w)) = calls w @ cs \<and> (\<forall>h. CloseStore h \<notin> set cs)"
  by (cases f) (simp_all add: call_action_def checkExists_calls addCert_calls deleteCert_calls)

lemma wWinMain_calls:
  "\<exists>cs. calls (snd (wWinMain argv w)) = calls w @ cs \<and> (\<forall>h. CloseStore h \<notin> set cs)"
proof (cases "length argv < 3")
  case True
  then show ?thesis by (simp add: wWinMain_def)
next
  case False
  show ?thesis
  proof (cases "select_action (argv ! 0)")
    case None
    with False show ?thesis by (simp add: wWinMain_def)
  next
    case (Some p)
    obtain f fl where p: "p = (f, fl)" by (cases p)
    let ?w1 = "record_call (OpenStore (argv ! 1) ({CERT_SYSTEM_STORE_LOCAL_MACHINE} \<union> fl)) w"
    show ?thesis
    proof (cases "stores w (argv ! 1)")
      case None
      with False Some p show ?thesis
        by (simp add: wWinMain_def CertOpenStore_def record_call_def)
    next
      case (Some es)
      obtain cs where cs: "calls (snd (call_action f (argv ! 1) (argv ! 2) ?w1)) = calls ?w1 @ cs"
        "\<forall>h. CloseStore h \<notin> set cs"
        using call_action_calls by blast
      from False \<open>select_action (argv ! 0) = Some p\<close> p Some
      have "wWinMain argv w = call_action f (argv ! 1) (argv ! 2) ?w1"
        by (simp add: wWinMain_def CertOpenStore_def)
      with cs show ?thesis by (simp add: record_call_def)
    qed
  qed
qed

text \<open>
  Claim C2 says that a store that was opened is closed before the process exits, on
  every path. The source has no call that closes a store. On the test double, a find
  that opens \<open>ROOT\<close> makes two platform calls, the open and the find, and no close.
\<close>

theorem store_left_open_example:
  "stores (fake_platform [example_ca]) (wstr ''ROOT'') = Some [example_ca] \<and>
   calls (snd (wWinMain [wstr ''find'', wstr ''ROOT'', wstr ''Example CA'']
                 (fake_platform [example_ca]))) =
     [OpenStore (wstr ''ROOT'') {CERT_SYSTEM_STORE_LOCAL_MACHINE, CERT_STORE_READONLY_FLAG},
      FindCertificateInStore (wstr ''ROOT'') (wstr ''Example CA'')] \<and>
   CloseStore (wstr ''ROOT'') \<notin>
     set (calls (snd (wWinMain [wstr ''find'', wstr ''ROOT'', wstr ''Example CA'']
                        (fake_platform [example_ca]))))"
  by (simp add: wWinMain_def select_action_prefix call_action_def wstr_def checkExists_def
      platform_defs test_defs)

text \<open>
  Claim C2, amended: on no exit path does the program close the store handle. None of
  the platform calls a run adds to the log is a \<open>CloseStore\<close>; an opened store stays
  open until the process ends.
\<close>

theorem store_never_closed:
  "CloseStore h \<notin> set (drop (length (calls w)) (calls (snd (wWinMain argv w))))"
proof -
  obtain cs where "calls (snd (wWinMain argv w)) = calls w @ cs" "\<forall>h. CloseStore h \<notin> set cs"
    using wWinMain_calls by blast
  then show ?thesis by simp
qed

end
